theory Spec2Isabelle
  imports Main "HOL-Library.Word"
begin

section \<open>Python exceptions as values\<close>

text \<open>
  Every \<^verbatim>\<open>raise\<close> of the three integration modules is a value of \<open>py_exception\<close>; a
  function that may raise returns \<open>py_exception + 'a\<close>, with \<open>Inl\<close> for the raised
  exception. A constructor stands for the exception class of that name together with its
  subclasses, which is what an \<^verbatim>\<open>except\<close> clause matches. \<open>OtherException\<close> is any
  exception whose class is neither a named one nor a subclass of one (the argument is its
  class name).
  \<open>ConfigEntryNotReady\<close> carries its cause (\<^verbatim>\<open>raise ConfigEntryNotReady from ex\<close>).
\<close>

datatype py_exception =
    SynologyDSMAPIErrorException
  | SynologyDSMRequestException
  | ConnectionRefusedError
  | TypeError
  | KeyError
  | NameError
  | ValueError
  | AssertionError
  | ConfigEntryAuthFailed string
  | ConfigEntryNotReady py_exception
  | OtherException string

type_synonym bytes = "8 word list"

text \<open>Subscripting a dict: \<^verbatim>\<open>d[k]\<close> raises KeyError when the key is absent.\<close>

definition getitem :: "('k \<rightharpoonup> 'v) \<Rightarrow> 'k \<Rightarrow> py_exception + 'v" where
  "getitem d k = (case d k of None \<Rightarrow> Inl KeyError | Some v \<Rightarrow> Inr v)"

section \<open>synology\_dsm/camera.py\<close>

text \<open>
  The vendor's \<^verbatim>\<open>SynoCamera\<close>, with the attributes the module reads. The type of
  \<^verbatim>\<open>id\<close> (here \<open>id_cam\<close>) is the vendor's and stays a parameter \<open>'i\<close>.
\<close>

record 'i SynoCamera =
  id_cam :: 'i
  name :: string
  model :: string
  is_enabled :: bool
  is_recording :: bool
  is_motion_detection_enabled :: bool
  live_view_rtsp :: string

text \<open>
  \<^verbatim>\<open>DataUpdateCoordinator[dict[str, dict[str, SynoCamera]]]\<close>: the latest snapshot and
  whether the last poll succeeded.
\<close>

record 'i DataUpdateCoordinator =
  data :: "string \<rightharpoonup> (string \<rightharpoonup> 'i SynoCamera)"
  last_update_success :: bool

text \<open>
  \<^verbatim>\<open>self._api.surveillance_station\<close>: the three vendor calls the entity makes. Each
  either returns or raises.
\<close>

record SynoSurveillanceStation =
  get_camera_image :: "string \<Rightarrow> int \<Rightarrow> py_exception + bytes"
  vendor_enable_motion_detection :: "string \<Rightarrow> py_exception + unit"
  vendor_disable_motion_detection :: "string \<Rightarrow> py_exception + unit"

text \<open>
  Modelled from the spec: the host's \<^verbatim>\<open>Stream\<close> object, which is not among the source
  files. "The entity updates its live stream object in place when notified":
  \<^verbatim>\<open>update_source\<close> replaces the URL the stream reads from.
\<close>

record Stream =
  source :: string

definition update_source :: "Stream \<Rightarrow> string \<Rightarrow> Stream" where
  "update_source s url = s\<lparr>source := url\<rparr>"

text \<open>
  The host's \<^verbatim>\<open>ConfigEntry\<close> (the fields the modules read) and \<^verbatim>\<open>EntityPlatform\<close>.
\<close>

record ConfigEntry =
  entry_id :: string
  unique_id :: "string option"
  entry_data :: "string \<rightharpoonup> string"

record EntityPlatform =
  config_entry :: "ConfigEntry option"

text \<open>
  A \<^verbatim>\<open>SynoDSMCamera\<close> entity. \<open>key\<close> is \<^verbatim>\<open>entity_description.key\<close>, the camera id the
  entity was built for; \<open>platform\<close> is \<^verbatim>\<open>self.platform\<close> (\<open>None\<close> until the entity is
  added to a platform); \<open>stream\<close> is \<^verbatim>\<open>self.stream\<close>.
\<close>

record 'i SynoDSMCamera =
  surveillance_station :: SynoSurveillanceStation
  coordinator :: "'i DataUpdateCoordinator"
  key :: string
  snapshot_quality :: int
  platform :: "EntityPlatform option"
  stream :: "Stream option"

definition camera_data :: "'i SynoDSMCamera \<Rightarrow> py_exception + 'i SynoCamera" where
  "camera_data self =
     (case getitem (data (coordinator self)) ''cameras'' of
        Inl e \<Rightarrow> Inl e
      | Inr cameras \<Rightarrow> getitem cameras (key self))"

definition available :: "'i SynoDSMCamera \<Rightarrow> py_exception + bool" where
  "available self =
     (case camera_data self of
        Inl e \<Rightarrow> Inl e
      | Inr cam \<Rightarrow> Inr (is_enabled cam \<and> last_update_success (coordinator self)))"

definition is_recording_prop :: "'i SynoDSMCamera \<Rightarrow> py_exception + bool" where
  "is_recording_prop self =
     (case camera_data self of Inl e \<Rightarrow> Inl e | Inr cam \<Rightarrow> Inr (is_recording cam))"

definition motion_detection_enabled :: "'i SynoDSMCamera \<Rightarrow> py_exception + bool" where
  "motion_detection_enabled self =
     (case camera_data self of
        Inl e \<Rightarrow> Inl e
      | Inr cam \<Rightarrow> Inr (is_motion_detection_enabled cam))"

text \<open>
  The exception classes of the \<^verbatim>\<open>except\<close> clause of \<^verbatim>\<open>camera_image\<close>.
\<close>

definition camera_image_caught :: "py_exception \<Rightarrow> bool" where
  "camera_image_caught err =
     (err = SynologyDSMAPIErrorException \<or> err = SynologyDSMRequestException
      \<or> err = ConnectionRefusedError)"

text \<open>
  \<^verbatim>\<open>camera_image\<close>: both debug logs read \<^verbatim>\<open>self.camera_data.name\<close> and so raise
  KeyError when the camera is not in the snapshot; \<open>Inr None\<close> is Python's \<^verbatim>\<open>None\<close>.
\<close>

definition camera_image ::
  "'i SynoDSMCamera \<Rightarrow> int option \<Rightarrow> int option \<Rightarrow> py_exception + bytes option" where
  "camera_image self width height =
     (case camera_data self of
        Inl e \<Rightarrow> Inl e
      | Inr _ \<Rightarrow>
          (case available self of
             Inl e \<Rightarrow> Inl e
           | Inr a \<Rightarrow>
               if \<not> a then Inr None
               else
                 (case get_camera_image (surveillance_station self) (key self)
                         (snapshot_quality self) of
                    Inr img \<Rightarrow> Inr (Some img)
                  | Inl err \<Rightarrow>
                      if camera_image_caught err then
                        (case camera_data self of Inl e \<Rightarrow> Inl e | Inr _ \<Rightarrow> Inr None)
                      else Inl err)))"

definition stream_source :: "'i SynoDSMCamera \<Rightarrow> py_exception + string option" where
  "stream_source self =
     (case camera_data self of
        Inl e \<Rightarrow> Inl e
      | Inr _ \<Rightarrow>
          (case available self of
             Inl e \<Rightarrow> Inl e
           | Inr a \<Rightarrow>
               if \<not> a then Inr None
               else
                 (case camera_data self of
                    Inl e \<Rightarrow> Inl e
                  | Inr cam \<Rightarrow> Inr (Some (live_view_rtsp cam)))))"

definition enable_motion_detection :: "'i SynoDSMCamera \<Rightarrow> py_exception + unit" where
  "enable_motion_detection self =
     (case camera_data self of
        Inl e \<Rightarrow> Inl e
      | Inr _ \<Rightarrow> vendor_enable_motion_detection (surveillance_station self) (key self))"

definition disable_motion_detection :: "'i SynoDSMCamera \<Rightarrow> py_exception + unit" where
  "disable_motion_detection self =
     (case camera_data self of
        Inl e \<Rightarrow> Inl e
      | Inr _ \<Rightarrow> vendor_disable_motion_detection (surveillance_station self) (key self))"

subsection \<open>Stream-source signals\<close>

text \<open>
  The signal name of \<^verbatim>\<open>_listen_source_updates\<close>, the f-string
  \<^verbatim>\<open>f"{SIGNAL_CAMERA_SOURCE_CHANGED}_{entry_id}_{camera_data.id}"\<close>. The constant
  \<^verbatim>\<open>SIGNAL_CAMERA_SOURCE_CHANGED\<close> (of \<^verbatim>\<open>.const\<close>) is the parameter \<open>sig\<close>; the third
  argument is the camera id as the f-string formats it.
\<close>

definition signal_name :: "string \<Rightarrow> string \<Rightarrow> string \<Rightarrow> string" where
  "signal_name sig eid cid = sig @ ''_'' @ eid @ ''_'' @ cid"

text \<open>
  The entities of the camera platform and the dispatcher's connections. A connection is
  the signal name with the index of the entity whose \<^verbatim>\<open>_handle_signal\<close> closure was
  connected (the closure captures \<^verbatim>\<open>self\<close>).
\<close>

record 'i camera_hass =
  entities :: "'i SynoDSMCamera list"
  dispatcher :: "(string \<times> nat) list"

text \<open>
  The closure \<^verbatim>\<open>_handle_signal\<close> of the entity \<open>self\<close>. With a stream present the debug
  log reads \<^verbatim>\<open>self.camera_data.name\<close> before the source is updated.
\<close>

definition handle_signal ::
  "'i SynoDSMCamera \<Rightarrow> string \<Rightarrow> py_exception + 'i SynoDSMCamera" where
  "handle_signal self url =
     (case stream self of
        None \<Rightarrow> Inr self
      | Some s \<Rightarrow>
          (case camera_data self of
             Inl e \<Rightarrow> Inl e
           | Inr _ \<Rightarrow> Inr (self\<lparr>stream := Some (update_source s url)\<rparr>)))"

text \<open>
  The signal an entity connects to in \<^verbatim>\<open>_listen_source_updates\<close>: the two assertions,
  then the f-string. \<open>fmt\<close> is how the f-string formats the vendor's camera id.
\<close>

definition listen_signal ::
  "string \<Rightarrow> ('i \<Rightarrow> string) \<Rightarrow> 'i SynoDSMCamera \<Rightarrow> py_exception + string" where
  "listen_signal sig fmt self =
     (case platform self of
        None \<Rightarrow> Inl AssertionError
      | Some p \<Rightarrow>
          (case config_entry p of
             None \<Rightarrow> Inl AssertionError
           | Some ce \<Rightarrow>
               (case camera_data self of
                  Inl e \<Rightarrow> Inl e
                | Inr cam \<Rightarrow> Inr (signal_name sig (entry_id ce) (fmt (id_cam cam))))))"

text \<open>
  The pair an entity is keyed by when it connects: the id of its platform's config entry
  and the id of its camera in the snapshot (\<open>None\<close> when \<^verbatim>\<open>_listen_source_updates\<close>
  would raise).
\<close>

definition entity_ids :: "'i SynoDSMCamera \<Rightarrow> (string \<times> 'i) option" where
  "entity_ids self =
     (case platform self of
        None \<Rightarrow> None
      | Some p \<Rightarrow>
          (case config_entry p of
             None \<Rightarrow> None
           | Some ce \<Rightarrow>
               (case camera_data self of
                  Inl _ \<Rightarrow> None
                | Inr cam \<Rightarrow> Some (entry_id ce, id_cam cam))))"

definition listen_source_updates ::
  "string \<Rightarrow> ('i \<Rightarrow> string) \<Rightarrow> 'i camera_hass \<Rightarrow> nat \<Rightarrow> py_exception + 'i camera_hass" where
  "listen_source_updates sig fmt hass i =
     (case listen_signal sig fmt (entities hass ! i) of
        Inl e \<Rightarrow> Inl e
      | Inr s \<Rightarrow> Inr (hass\<lparr>dispatcher := dispatcher hass @ [(s, i)]\<rparr>))"

definition async_added_to_hass ::
  "string \<Rightarrow> ('i \<Rightarrow> string) \<Rightarrow> 'i camera_hass \<Rightarrow> nat \<Rightarrow> py_exception + 'i camera_hass" where
  "async_added_to_hass sig fmt hass i = listen_source_updates sig fmt hass i"

text \<open>
  Modelled from the spec: the host's dispatcher (\<^verbatim>\<open>async_dispatcher_send\<close>), which is not
  among the source files. "Stream source URL updates arrive asynchronously via a
  dispatched signal keyed by config-entry id and camera id; the entity updates its live
  stream object in place when notified": sending a signal runs, in connection order, the
  callbacks connected under exactly that signal name; a callback that raises leaves its
  entity as it was.
\<close>

fun deliver ::
  "string \<Rightarrow> string \<Rightarrow> (string \<times> nat) list \<Rightarrow> 'i SynoDSMCamera list \<Rightarrow> 'i SynoDSMCamera list"
  where
  "deliver signal url [] es = es"
| "deliver signal url ((s, i) # conns) es =
     deliver signal url conns
       (if s = signal \<and> i < length es then
          (case handle_signal (es ! i) url of
             Inl _ \<Rightarrow> es
           | Inr e' \<Rightarrow> es[i := e'])
        else es)"

definition dispatcher_send :: "'i camera_hass \<Rightarrow> string \<Rightarrow> string \<Rightarrow> 'i camera_hass" where
  "dispatcher_send hass signal url =
     hass\<lparr>entities := deliver signal url (dispatcher hass) (entities hass)\<rparr>"

text \<open>
  The states of the camera platform: no connection at first; then entities are added
  (each connects its closure) and signals are sent, in any order.
\<close>

inductive reachable :: "string \<Rightarrow> ('i \<Rightarrow> string) \<Rightarrow> 'i camera_hass \<Rightarrow> bool"
  for sig :: string and fmt :: "'i \<Rightarrow> string" where
  initial: "dispatcher hass = [] \<Longrightarrow> reachable sig fmt hass"
| added: "reachable sig fmt hass \<Longrightarrow> i < length (entities hass) \<Longrightarrow>
          async_added_to_hass sig fmt hass i = Inr hass' \<Longrightarrow> reachable sig fmt hass'"
| sent: "reachable sig fmt hass \<Longrightarrow> reachable sig fmt (dispatcher_send hass signal url)"

text \<open>
  Python's \<^verbatim>\<open>str\<close> of an \<^verbatim>\<open>int\<close>, which is how an f-string formats an integer camera id.
\<close>

definition digit_char :: "nat \<Rightarrow> char" where
  "digit_char d = char_of (48 + d)"

fun str_nat :: "nat \<Rightarrow> string" where
  "str_nat n = (if n < 10 then [digit_char n] else str_nat (n div 10) @ [digit_char (n mod 10)])"

declare str_nat.simps [simp del]

definition str_int :: "int \<Rightarrow> string" where
  "str_int i = (if i < 0 then CHR ''-'' # str_nat (nat (- i)) else str_nat (nat i))"

section \<open>aladdin\_connect/\_\_init\_\_.py\<close>

text \<open>
  The constants the module imports: \<^verbatim>\<open>CONF_USERNAME\<close> and \<^verbatim>\<open>CONF_PASSWORD\<close> of the host,
  \<^verbatim>\<open>DOMAIN\<close> of \<^verbatim>\<open>.const\<close>. Their values are not in the source files and stay parameters.
\<close>

record aladdin_const =
  CONF_USERNAME :: string
  CONF_PASSWORD :: string
  DOMAIN :: string

datatype Platform = COVER

definition PLATFORMS :: "Platform list" where
  "PLATFORMS = [COVER]"

text \<open>The vendor's client object, built from the two credentials.\<close>

record AladdinConnectClient =
  username :: string
  password :: string

text \<open>
  The host state the setup touches: the shared \<^verbatim>\<open>hass.data\<close> mapping (domain, then
  entry id, to the client) and the platform setups forwarded to \<^verbatim>\<open>hass.config_entries\<close>.
\<close>

record HomeAssistant =
  hass_data :: "string \<rightharpoonup> (string \<rightharpoonup> AladdinConnectClient)"
  forwarded_setups :: "(ConfigEntry \<times> Platform list) list"

text \<open>
  The body of the \<^verbatim>\<open>try\<close>: the vendor's \<^verbatim>\<open>login\<close> runs (it returns a truth value or
  raises), and a falsy result raises \<^verbatim>\<open>ConfigEntryAuthFailed("Incorrect Password")\<close>.
\<close>

definition login_step ::
  "(AladdinConnectClient \<Rightarrow> py_exception + bool) \<Rightarrow> AladdinConnectClient \<Rightarrow> py_exception + unit"
  where
  "login_step login acc =
     (case login acc of
        Inl ex \<Rightarrow> Inl ex
      | Inr ok \<Rightarrow> if \<not> ok then Inl (ConfigEntryAuthFailed ''Incorrect Password'') else Inr ())"

text \<open>The classes of \<^verbatim>\<open>except (TypeError, KeyError, NameError, ValueError)\<close>.\<close>

definition setup_caught :: "py_exception \<Rightarrow> bool" where
  "setup_caught ex = (ex = TypeError \<or> ex = KeyError \<or> ex = NameError \<or> ex = ValueError)"

text \<open>
  \<^verbatim>\<open>setdefault(DOMAIN, {})[entry_id] = acc\<close> on \<^verbatim>\<open>hass.data\<close>.
\<close>

definition store_client ::
  "(string \<rightharpoonup> (string \<rightharpoonup> AladdinConnectClient)) \<Rightarrow> string \<Rightarrow> string \<Rightarrow> AladdinConnectClient
   \<Rightarrow> (string \<rightharpoonup> (string \<rightharpoonup> AladdinConnectClient))" where
  "store_client d domain eid acc =
     (let inner = (case d domain of None \<Rightarrow> Map.empty | Some m \<Rightarrow> m)
      in d(domain \<mapsto> inner(eid \<mapsto> acc)))"

text \<open>
  \<^verbatim>\<open>async_setup_entry\<close>: the outcome (the returned value or the raised exception) together
  with the host state it leaves.
\<close>

definition async_setup_entry ::
  "aladdin_const \<Rightarrow> (AladdinConnectClient \<Rightarrow> py_exception + bool) \<Rightarrow> HomeAssistant \<Rightarrow> ConfigEntry
   \<Rightarrow> (py_exception + bool) \<times> HomeAssistant" where
  "async_setup_entry c login hass entry =
     (case getitem (entry_data entry) (CONF_USERNAME c) of
        Inl e \<Rightarrow> (Inl e, hass)
      | Inr u \<Rightarrow>
          (case getitem (entry_data entry) (CONF_PASSWORD c) of
             Inl e \<Rightarrow> (Inl e, hass)
           | Inr p \<Rightarrow>
               (let acc = \<lparr>username = u, password = p\<rparr> in
                case login_step login acc of
                  Inl ex \<Rightarrow>
                    if setup_caught ex then (Inl (ConfigEntryNotReady ex), hass)
                    else (Inl ex, hass)
                | Inr _ \<Rightarrow>
                    (Inr True,
                     hass\<lparr>hass_data := store_client (hass_data hass) (DOMAIN c) (entry_id entry) acc,
                          forwarded_setups := forwarded_setups hass @ [(entry, PLATFORMS)]\<rparr>))))"

section \<open>aemet/weather.py\<close>

text \<open>
  The constants of \<^verbatim>\<open>.const\<close> the module imports; the file is not among the sources, so
  they stay parameters. \<^verbatim>\<open>FORECAST_MODE_ATTR_API\<close> is a dict from forecast mode to
  snapshot key.
\<close>

record aemet_const =
  ATTR_API_CONDITION :: string
  ATTR_API_HUMIDITY :: string
  ATTR_API_PRESSURE :: string
  ATTR_API_TEMPERATURE :: string
  ATTR_API_WIND_BEARING :: string
  ATTR_API_WIND_SPEED :: string
  ENTRY_NAME :: string
  ENTRY_WEATHER_COORDINATOR :: string
  FORECAST_MODE_ATTR_API :: "string \<rightharpoonup> string"
  FORECAST_MODE_DAILY :: string
  FORECAST_MODES :: "string list"

text \<open>The coordinator's snapshot: a dict from attribute key to value.\<close>

record 'v WeatherUpdateCoordinator =
  weather_data :: "string \<rightharpoonup> 'v"

record 'v AemetWeather =
  weather_coordinator :: "'v WeatherUpdateCoordinator"
  forecast_mode :: string
  attr_entity_registry_enabled_default :: bool
  attr_name :: string
  attr_unique_id :: string

definition AemetWeather_init ::
  "aemet_const \<Rightarrow> string \<Rightarrow> string \<Rightarrow> 'v WeatherUpdateCoordinator \<Rightarrow> string \<Rightarrow> 'v AemetWeather"
  where
  "AemetWeather_init c nm uid coord mode =
     \<lparr>weather_coordinator = coord,
      forecast_mode = mode,
      attr_entity_registry_enabled_default = (mode = FORECAST_MODE_DAILY c),
      attr_name = nm,
      attr_unique_id = uid\<rparr>"

definition condition :: "aemet_const \<Rightarrow> 'v AemetWeather \<Rightarrow> py_exception + 'v" where
  "condition c self = getitem (weather_data (weather_coordinator self)) (ATTR_API_CONDITION c)"

definition forecast :: "aemet_const \<Rightarrow> 'v AemetWeather \<Rightarrow> py_exception + 'v" where
  "forecast c self =
     (case getitem (FORECAST_MODE_ATTR_API c) (forecast_mode self) of
        Inl e \<Rightarrow> Inl e
      | Inr k \<Rightarrow> getitem (weather_data (weather_coordinator self)) k)"

definition humidity :: "aemet_const \<Rightarrow> 'v AemetWeather \<Rightarrow> py_exception + 'v" where
  "humidity c self = getitem (weather_data (weather_coordinator self)) (ATTR_API_HUMIDITY c)"

definition pressure :: "aemet_const \<Rightarrow> 'v AemetWeather \<Rightarrow> py_exception + 'v" where
  "pressure c self = getitem (weather_data (weather_coordinator self)) (ATTR_API_PRESSURE c)"

definition temperature :: "aemet_const \<Rightarrow> 'v AemetWeather \<Rightarrow> py_exception + 'v" where
  "temperature c self = getitem (weather_data (weather_coordinator self)) (ATTR_API_TEMPERATURE c)"

definition wind_bearing :: "aemet_const \<Rightarrow> 'v AemetWeather \<Rightarrow> py_exception + 'v" where
  "wind_bearing c self = getitem (weather_data (weather_coordinator self)) (ATTR_API_WIND_BEARING c)"

definition wind_speed :: "aemet_const \<Rightarrow> 'v AemetWeather \<Rightarrow> py_exception + 'v" where
  "wind_speed c self = getitem (weather_data (weather_coordinator self)) (ATTR_API_WIND_SPEED c)"

text \<open>
  The weather platform's \<^verbatim>\<open>async_setup_entry\<close>. \<open>domain_data\<close> is the dict
  \<^verbatim>\<open>hass.data[DOMAIN][config_entry.entry_id]\<close>, holding the coordinator under
  \<^verbatim>\<open>ENTRY_WEATHER_COORDINATOR\<close> and the name under \<^verbatim>\<open>ENTRY_NAME\<close>; an f-string formats
  a \<^verbatim>\<open>unique_id\<close> of \<^verbatim>\<open>None\<close> as \<^verbatim>\<open>None\<close>. The result is the list handed to
  \<^verbatim>\<open>async_add_entities\<close> (empty when it is not called).
\<close>

record 'v aemet_domain_data =
  coordinators :: "string \<rightharpoonup> 'v WeatherUpdateCoordinator"
  names :: "string \<rightharpoonup> string"

fun build_entities ::
  "aemet_const \<Rightarrow> 'v aemet_domain_data \<Rightarrow> string option \<Rightarrow> 'v WeatherUpdateCoordinator
   \<Rightarrow> string list \<Rightarrow> py_exception + 'v AemetWeather list" where
  "build_entities c dd uid coord [] = Inr []"
| "build_entities c dd uid coord (mode # modes) =
     (case getitem (names dd) (ENTRY_NAME c) of
        Inl e \<Rightarrow> Inl e
      | Inr n \<Rightarrow>
          (let nm = n @ '' '' @ mode;
               unique = (case uid of None \<Rightarrow> ''None'' | Some u \<Rightarrow> u) @ '' '' @ mode;
               entity = AemetWeather_init c nm unique coord mode
           in case build_entities c dd uid coord modes of
                Inl e \<Rightarrow> Inl e
              | Inr rest \<Rightarrow> Inr (entity # rest)))"

definition weather_async_setup_entry ::
  "aemet_const \<Rightarrow> 'v aemet_domain_data \<Rightarrow> ConfigEntry \<Rightarrow> py_exception + 'v AemetWeather list"
  where
  "weather_async_setup_entry c dd entry =
     (case getitem (coordinators dd) (ENTRY_WEATHER_COORDINATOR c) of
        Inl e \<Rightarrow> Inl e
      | Inr coord \<Rightarrow> build_entities c dd (unique_id entry) coord (FORECAST_MODES c))"

section \<open>Sample values\<close>

text \<open>
  A surveillance station that serves an image for camera 1 and fails for the others, a
  snapshot with three cameras (the third disabled), and entities over them.
\<close>

definition demo_station :: SynoSurveillanceStation where
  "demo_station =
     \<lparr>get_camera_image =
        (\<lambda>k q. if k = ''1'' then Inr [0xFF, 0xD8] else Inl SynologyDSMAPIErrorException),
      vendor_enable_motion_detection = (\<lambda>k. Inl SynologyDSMRequestException),
      vendor_disable_motion_detection = (\<lambda>k. Inl (OtherException ''SynologyDSMLoginFailedException''))\<rparr>"

definition demo_cam :: "int \<Rightarrow> bool \<Rightarrow> int SynoCamera" where
  "demo_cam i en =
     \<lparr>id_cam = i, name = ''cam'', model = ''m'', is_enabled = en, is_recording = False,
      is_motion_detection_enabled = False, live_view_rtsp = ''rtsp://nas/live''\<rparr>"

definition demo_coordinator :: "int DataUpdateCoordinator" where
  "demo_coordinator =
     \<lparr>data = [''cameras'' \<mapsto>
               [''1'' \<mapsto> demo_cam 1 True, ''2'' \<mapsto> demo_cam 2 True, ''3'' \<mapsto> demo_cam 3 False]],
      last_update_success = True\<rparr>"

definition demo_entry :: "string \<Rightarrow> ConfigEntry" where
  "demo_entry eid =
     \<lparr>entry_id = eid, unique_id = Some ''uid'',
      entry_data = [''username'' \<mapsto> ''me'', ''password'' \<mapsto> ''secret'']\<rparr>"

definition demo_camera :: "string \<Rightarrow> string \<Rightarrow> int SynoDSMCamera" where
  "demo_camera k eid =
     \<lparr>surveillance_station = demo_station, coordinator = demo_coordinator, key = k,
      snapshot_quality = 1,
      platform = Some \<lparr>config_entry = Some (demo_entry eid)\<rparr>,
      stream = Some \<lparr>source = ''rtsp://nas/old''\<rparr>\<rparr>"

definition demo_aladdin_const :: aladdin_const where
  "demo_aladdin_const =
     \<lparr>CONF_USERNAME = ''username'', CONF_PASSWORD = ''password'', DOMAIN = ''aladdin_connect''\<rparr>"

definition demo_hass :: HomeAssistant where
  "demo_hass = \<lparr>hass_data = Map.empty, forwarded_setups = []\<rparr>"

definition demo_aemet_const :: aemet_const where
  "demo_aemet_const =
     \<lparr>ATTR_API_CONDITION = ''condition'', ATTR_API_HUMIDITY = ''humidity'',
      ATTR_API_PRESSURE = ''pressure'', ATTR_API_TEMPERATURE = ''temperature'',
      ATTR_API_WIND_BEARING = ''wind-bearing'', ATTR_API_WIND_SPEED = ''wind-speed'',
      ENTRY_NAME = ''name'', ENTRY_WEATHER_COORDINATOR = ''weather_coordinator'',
      FORECAST_MODE_ATTR_API = [''daily'' \<mapsto> ''forecast-daily'', ''hourly'' \<mapsto> ''forecast-hourly''],
      FORECAST_MODE_DAILY = ''daily'',
      FORECAST_MODES = [''daily'', ''hourly'']\<rparr>"

definition demo_weather_coordinator :: "int WeatherUpdateCoordinator" where
  "demo_weather_coordinator =
     \<lparr>weather_data =
        [''condition'' \<mapsto> 1, ''humidity'' \<mapsto> 40, ''pressure'' \<mapsto> 1013, ''temperature'' \<mapsto> 21,
         ''wind-bearing'' \<mapsto> 180, ''wind-speed'' \<mapsto> 12, ''forecast-daily'' \<mapsto> 7]\<rparr>"

definition demo_domain_data :: "int aemet_domain_data" where
  "demo_domain_data =
     \<lparr>coordinators = [''weather_coordinator'' \<mapsto> demo_weather_coordinator],
      names = [''name'' \<mapsto> ''Home'']\<rparr>"

definition demo_weather :: "string \<Rightarrow> int AemetWeather" where
  "demo_weather mode =
     AemetWeather_init demo_aemet_const ''Home'' ''uid'' demo_weather_coordinator mode"

definition demo_empty_weather :: "string \<Rightarrow> int AemetWeather" where
  "demo_empty_weather mode =
     AemetWeather_init demo_aemet_const ''Home'' ''uid'' \<lparr>weather_data = Map.empty\<rparr> mode"

definition demo_failing_camera :: "int SynoDSMCamera" where
  "demo_failing_camera =
     (demo_camera ''2'' ''e1'')
       \<lparr>surveillance_station :=
          demo_station\<lparr>get_camera_image :=
            (\<lambda>k q. Inl (OtherException ''SynologyDSMLoginFailedException''))\<rparr>\<rparr>"

text \<open>
  Three camera entities, two of config entry e1 and one of e2, before and after each has
  been added (the signal constant is \<^verbatim>\<open>sig\<close>).
\<close>

definition demo_platform0 :: "int camera_hass" where
  "demo_platform0 =
     \<lparr>entities = [demo_camera ''1'' ''e1'', demo_camera ''2'' ''e1'', demo_camera ''1'' ''e2''],
      dispatcher = []\<rparr>"

definition demo_platform :: "int camera_hass" where
  "demo_platform =
     demo_platform0\<lparr>dispatcher := [(''sig_e1_1'', 0), (''sig_e1_2'', 1), (''sig_e2_1'', 2)]\<rparr>"

section \<open>Camera entity: availability and image capture\<close>

text \<open>
  C2. For every snapshot and every camera entity, \<^verbatim>\<open>available\<close> is true if and only if
  the camera's \<^verbatim>\<open>is_enabled\<close> flag in the snapshot is true and the coordinator's last poll
  succeeded: with the camera in the snapshot the property returns that conjunction, and
  it returns \<^verbatim>\<open>True\<close> exactly when the snapshot holds the camera, enabled, and the last
  poll succeeded.
\<close>

theorem available_iff_enabled_and_polled:
  "(camera_data self = Inr cam \<longrightarrow>
      available self = Inr (is_enabled cam \<and> last_update_success (coordinator self))) \<and>
   (available self = Inr True \<longleftrightarrow>
      (\<exists>cam. camera_data self = Inr cam \<and> is_enabled cam \<and> last_update_success (coordinator self)))"
  by (auto simp: available_def split: sum.splits)

theorem available_iff_enabled_and_polled_witness:
  "camera_data (demo_camera ''1'' ''e1'') = Inr (demo_cam 1 True) \<and>
   available (demo_camera ''1'' ''e1'') = Inr True \<and>
   camera_data (demo_camera ''3'' ''e1'') = Inr (demo_cam 3 False) \<and>
   available (demo_camera ''3'' ''e1'') = Inr False"
  using available_iff_enabled_and_polled [of "demo_camera ''1'' ''e1''" "demo_cam 1 True"]
    available_iff_enabled_and_polled [of "demo_camera ''3'' ''e1''" "demo_cam 3 False"]
  by (simp add: camera_data_def getitem_def demo_camera_def demo_coordinator_def demo_cam_def)

text \<open>
  C1. \<^verbatim>\<open>camera_image\<close> returns \<^verbatim>\<open>None\<close> when \<^verbatim>\<open>available\<close> is false, and when the
  vendor's \<^verbatim>\<open>get_camera_image\<close> raises SynologyDSMAPIErrorException,
  SynologyDSMRequestException or ConnectionRefusedError; when the vendor call returns
  bytes, it returns exactly those bytes.
\<close>

theorem camera_image_result:
  "(available self = Inr False \<longrightarrow> camera_image self w h = Inr None) \<and>
   (available self = Inr True \<and>
    get_camera_image (surveillance_station self) (key self) (snapshot_quality self) = Inl err \<and>
    err \<in> {SynologyDSMAPIErrorException, SynologyDSMRequestException, ConnectionRefusedError}
      \<longrightarrow> camera_image self w h = Inr None) \<and>
   (available self = Inr True \<and>
    get_camera_image (surveillance_station self) (key self) (snapshot_quality self) = Inr b
      \<longrightarrow> camera_image self w h = Inr (Some b))"
  by (auto simp: camera_image_def available_def camera_image_caught_def split: sum.splits)

theorem camera_image_result_witness:
  "available (demo_camera ''3'' ''e1'') = Inr False \<and>
   camera_image (demo_camera ''3'' ''e1'') None None = Inr None \<and>
   available (demo_camera ''2'' ''e1'') = Inr True \<and>
   get_camera_image demo_station ''2'' 1 = Inl SynologyDSMAPIErrorException \<and>
   camera_image (demo_camera ''2'' ''e1'') None None = Inr None \<and>
   available (demo_camera ''1'' ''e1'') = Inr True \<and>
   get_camera_image demo_station ''1'' 1 = Inr [0xFF, 0xD8] \<and>
   camera_image (demo_camera ''1'' ''e1'') None None = Inr (Some [0xFF, 0xD8])"
  using camera_image_result [of "demo_camera ''3'' ''e1''" None None SynologyDSMAPIErrorException "[]"]
    camera_image_result [of "demo_camera ''2'' ''e1''" None None SynologyDSMAPIErrorException "[]"]
    camera_image_result [of "demo_camera ''1'' ''e1''" None None SynologyDSMAPIErrorException "[0xFF, 0xD8]"]
  by (simp add: available_def camera_data_def getitem_def demo_camera_def demo_coordinator_def
      demo_cam_def demo_station_def)

section \<open>Cover client setup\<close>

text \<open>
  C3. When the vendor's \<^verbatim>\<open>login\<close> completes without raising and returns a falsy result,
  \<^verbatim>\<open>async_setup_entry\<close> raises \<^verbatim>\<open>ConfigEntryAuthFailed\<close>, not \<^verbatim>\<open>ConfigEntryNotReady\<close>.
  (The login call is reached when the entry holds both credentials.)
\<close>

theorem login_falsy_raises_auth_failed:
  assumes "entry_data entry (CONF_USERNAME c) = Some u"
    and "entry_data entry (CONF_PASSWORD c) = Some p"
    and "login \<lparr>username = u, password = p\<rparr> = Inr False"
  shows "fst (async_setup_entry c login hass entry) = Inl (ConfigEntryAuthFailed ''Incorrect Password'')
    \<and> (\<forall>cause. fst (async_setup_entry c login hass entry) \<noteq> Inl (ConfigEntryNotReady cause))"
  using assms
  by (simp add: async_setup_entry_def getitem_def login_step_def setup_caught_def)

theorem login_falsy_raises_auth_failed_witness:
  "entry_data (demo_entry ''e1'') (CONF_USERNAME demo_aladdin_const) = Some ''me'' \<and>
   entry_data (demo_entry ''e1'') (CONF_PASSWORD demo_aladdin_const) = Some ''secret'' \<and>
   fst (async_setup_entry demo_aladdin_const (\<lambda>acc. Inr False) demo_hass (demo_entry ''e1''))
     = Inl (ConfigEntryAuthFailed ''Incorrect Password'')"
  using login_falsy_raises_auth_failed [of "demo_entry ''e1''" demo_aladdin_const "''me''" "''secret''"
      "\<lambda>acc. Inr False" demo_hass]
  by (simp add: demo_entry_def demo_aladdin_const_def)

text \<open>
  C4. When the login step raises TypeError, KeyError, NameError or ValueError,
  \<^verbatim>\<open>async_setup_entry\<close> raises \<^verbatim>\<open>ConfigEntryNotReady\<close> (with the original as its cause)
  and the original exception does not propagate.
\<close>

theorem login_exception_raises_not_ready:
  assumes "entry_data entry (CONF_USERNAME c) = Some u"
    and "entry_data entry (CONF_PASSWORD c) = Some p"
    and "login \<lparr>username = u, password = p\<rparr> = Inl ex"
    and "ex \<in> {TypeError, KeyError, NameError, ValueError}"
  shows "fst (async_setup_entry c login hass entry) = Inl (ConfigEntryNotReady ex)
    \<and> fst (async_setup_entry c login hass entry) \<noteq> Inl ex"
  using assms
  by (auto simp: async_setup_entry_def getitem_def login_step_def setup_caught_def)

theorem login_exception_raises_not_ready_witness:
  "entry_data (demo_entry ''e1'') (CONF_USERNAME demo_aladdin_const) = Some ''me'' \<and>
   entry_data (demo_entry ''e1'') (CONF_PASSWORD demo_aladdin_const) = Some ''secret'' \<and>
   fst (async_setup_entry demo_aladdin_const (\<lambda>acc. Inl KeyError) demo_hass (demo_entry ''e1''))
     = Inl (ConfigEntryNotReady KeyError)"
  using login_exception_raises_not_ready [of "demo_entry ''e1''" demo_aladdin_const "''me''" "''secret''"
      "\<lambda>acc. Inl KeyError" KeyError demo_hass]
  by (simp add: demo_entry_def demo_aladdin_const_def)

text \<open>
  C9. The client is stored in \<^verbatim>\<open>hass.data\<close> only after login succeeds: when
  \<^verbatim>\<open>async_setup_entry\<close> exits with an exception (authentication failure and not-ready
  among them) the host state, \<^verbatim>\<open>hass.data\<close> included, is as before; when it returns, the
  login returned true for the client stored under the domain and the entry id.
\<close>

theorem failed_setup_leaves_hass_data:
  "(fst (async_setup_entry c login hass entry) = Inl ex \<longrightarrow>
      snd (async_setup_entry c login hass entry) = hass) \<and>
   (fst (async_setup_entry c login hass entry) = Inr r \<longrightarrow>
      (\<exists>acc. login acc = Inr True \<and>
         hass_data (snd (async_setup_entry c login hass entry)) =
           store_client (hass_data hass) (DOMAIN c) (entry_id entry) acc))"
  by (auto simp: async_setup_entry_def getitem_def login_step_def Let_def
      split: option.splits sum.splits if_splits)

theorem failed_setup_leaves_hass_data_witness:
  "fst (async_setup_entry demo_aladdin_const (\<lambda>acc. Inr False) demo_hass (demo_entry ''e1''))
     = Inl (ConfigEntryAuthFailed ''Incorrect Password'') \<and>
   snd (async_setup_entry demo_aladdin_const (\<lambda>acc. Inr False) demo_hass (demo_entry ''e1''))
     = demo_hass \<and>
   fst (async_setup_entry demo_aladdin_const (\<lambda>acc. Inl ValueError) demo_hass (demo_entry ''e1''))
     = Inl (ConfigEntryNotReady ValueError) \<and>
   snd (async_setup_entry demo_aladdin_const (\<lambda>acc. Inl ValueError) demo_hass (demo_entry ''e1''))
     = demo_hass \<and>
   fst (async_setup_entry demo_aladdin_const (\<lambda>acc. Inr True) demo_hass (demo_entry ''e1''))
     = Inr True \<and>
   hass_data (snd (async_setup_entry demo_aladdin_const (\<lambda>acc. Inr True) demo_hass (demo_entry ''e1'')))
     ''aladdin_connect'' = Some [''e1'' \<mapsto> \<lparr>username = ''me'', password = ''secret''\<rparr>]"
  using failed_setup_leaves_hass_data [of demo_aladdin_const "\<lambda>acc. Inr False" demo_hass
      "demo_entry ''e1''" "ConfigEntryAuthFailed ''Incorrect Password''" True]
    failed_setup_leaves_hass_data [of demo_aladdin_const "\<lambda>acc. Inl ValueError" demo_hass
      "demo_entry ''e1''" "ConfigEntryNotReady ValueError" True]
    failed_setup_leaves_hass_data [of demo_aladdin_const "\<lambda>acc. Inr True" demo_hass
      "demo_entry ''e1''" KeyError True]
  by (simp add: async_setup_entry_def getitem_def login_step_def setup_caught_def store_client_def
      demo_entry_def demo_aladdin_const_def demo_hass_def)

section \<open>Weather entity\<close>

lemmas demo_weather_simps =
  demo_weather_def AemetWeather_init_def demo_aemet_const_def demo_weather_coordinator_def

text \<open>
  C6. For a snapshot that holds the fixed attribute keys, each weather property
  (condition, humidity, pressure, temperature, wind\_bearing, wind\_speed, forecast)
  returns exactly the value the snapshot stores under its key; the key of \<^verbatim>\<open>forecast\<close> is
  the one \<^verbatim>\<open>FORECAST_MODE_ATTR_API\<close> gives for the entity's forecast mode.
\<close>

theorem weather_properties_read_snapshot:
  "(weather_data (weather_coordinator self) (ATTR_API_CONDITION c) = Some v \<longrightarrow>
      condition c self = Inr v) \<and>
   (weather_data (weather_coordinator self) (ATTR_API_HUMIDITY c) = Some v \<longrightarrow>
      humidity c self = Inr v) \<and>
   (weather_data (weather_coordinator self) (ATTR_API_PRESSURE c) = Some v \<longrightarrow>
      pressure c self = Inr v) \<and>
   (weather_data (weather_coordinator self) (ATTR_API_TEMPERATURE c) = Some v \<longrightarrow>
      temperature c self = Inr v) \<and>
   (weather_data (weather_coordinator self) (ATTR_API_WIND_BEARING c) = Some v \<longrightarrow>
      wind_bearing c self = Inr v) \<and>
   (weather_data (weather_coordinator self) (ATTR_API_WIND_SPEED c) = Some v \<longrightarrow>
      wind_speed c self = Inr v) \<and>
   (FORECAST_MODE_ATTR_API c (forecast_mode self) = Some k \<and>
    weather_data (weather_coordinator self) k = Some v \<longrightarrow>
      forecast c self = Inr v)"
  by (simp add: condition_def humidity_def pressure_def temperature_def wind_bearing_def
      wind_speed_def forecast_def getitem_def)

theorem weather_properties_read_snapshot_witness:
  "weather_data (weather_coordinator (demo_weather ''daily'')) (ATTR_API_CONDITION demo_aemet_const) = Some 1 \<and>
   condition demo_aemet_const (demo_weather ''daily'') = Inr 1 \<and>
   humidity demo_aemet_const (demo_weather ''daily'') = Inr 40 \<and>
   pressure demo_aemet_const (demo_weather ''daily'') = Inr 1013 \<and>
   temperature demo_aemet_const (demo_weather ''daily'') = Inr 21 \<and>
   wind_bearing demo_aemet_const (demo_weather ''daily'') = Inr 180 \<and>
   wind_speed demo_aemet_const (demo_weather ''daily'') = Inr 12 \<and>
   FORECAST_MODE_ATTR_API demo_aemet_const (forecast_mode (demo_weather ''daily'')) = Some ''forecast-daily'' \<and>
   forecast demo_aemet_const (demo_weather ''daily'') = Inr 7"
  using weather_properties_read_snapshot [of "demo_weather ''daily''" demo_aemet_const 1 "''forecast-daily''"]
    weather_properties_read_snapshot [of "demo_weather ''daily''" demo_aemet_const 40 "''forecast-daily''"]
    weather_properties_read_snapshot [of "demo_weather ''daily''" demo_aemet_const 1013 "''forecast-daily''"]
    weather_properties_read_snapshot [of "demo_weather ''daily''" demo_aemet_const 21 "''forecast-daily''"]
    weather_properties_read_snapshot [of "demo_weather ''daily''" demo_aemet_const 180 "''forecast-daily''"]
    weather_properties_read_snapshot [of "demo_weather ''daily''" demo_aemet_const 12 "''forecast-daily''"]
    weather_properties_read_snapshot [of "demo_weather ''daily''" demo_aemet_const 7 "''forecast-daily''"]
  by (simp add: demo_weather_simps)

text \<open>
  C8. For a snapshot that lacks one of the fixed attribute keys, the corresponding weather
  property raises KeyError: nothing is caught and no fallback value is returned. The
  same holds for \<^verbatim>\<open>forecast\<close> when its forecast mode has no key in
  \<^verbatim>\<open>FORECAST_MODE_ATTR_API\<close>.
\<close>

theorem weather_properties_missing_key:
  "(weather_data (weather_coordinator self) (ATTR_API_CONDITION c) = None \<longrightarrow>
      condition c self = Inl KeyError) \<and>
   (weather_data (weather_coordinator self) (ATTR_API_HUMIDITY c) = None \<longrightarrow>
      humidity c self = Inl KeyError) \<and>
   (weather_data (weather_coordinator self) (ATTR_API_PRESSURE c) = None \<longrightarrow>
      pressure c self = Inl KeyError) \<and>
   (weather_data (weather_coordinator self) (ATTR_API_TEMPERATURE c) = None \<longrightarrow>
      temperature c self = Inl KeyError) \<and>
   (weather_data (weather_coordinator self) (ATTR_API_WIND_BEARING c) = None \<longrightarrow>
      wind_bearing c self = Inl KeyError) \<and>
   (weather_data (weather_coordinator self) (ATTR_API_WIND_SPEED c) = None \<longrightarrow>
      wind_speed c self = Inl KeyError) \<and>
   (FORECAST_MODE_ATTR_API c (forecast_mode self) = Some k \<and>
    weather_data (weather_coordinator self) k = None \<longrightarrow>
      forecast c self = Inl KeyError) \<and>
   (FORECAST_MODE_ATTR_API c (forecast_mode self) = None \<longrightarrow>
      forecast c self = Inl KeyError)"
  by (simp add: condition_def humidity_def pressure_def temperature_def wind_bearing_def
      wind_speed_def forecast_def getitem_def)

theorem weather_properties_missing_key_witness:
  "weather_data (weather_coordinator (demo_empty_weather ''hourly'')) (ATTR_API_CONDITION demo_aemet_const) = None \<and>
   condition demo_aemet_const (demo_empty_weather ''hourly'') = Inl KeyError \<and>
   humidity demo_aemet_const (demo_empty_weather ''hourly'') = Inl KeyError \<and>
   pressure demo_aemet_const (demo_empty_weather ''hourly'') = Inl KeyError \<and>
   temperature demo_aemet_const (demo_empty_weather ''hourly'') = Inl KeyError \<and>
   wind_bearing demo_aemet_const (demo_empty_weather ''hourly'') = Inl KeyError \<and>
   wind_speed demo_aemet_const (demo_empty_weather ''hourly'') = Inl KeyError \<and>
   FORECAST_MODE_ATTR_API demo_aemet_const (forecast_mode (demo_empty_weather ''hourly'')) = Some ''forecast-hourly'' \<and>
   forecast demo_aemet_const (demo_empty_weather ''hourly'') = Inl KeyError \<and>
   FORECAST_MODE_ATTR_API demo_aemet_const (forecast_mode (demo_weather ''weekly'')) = None \<and>
   forecast demo_aemet_const (demo_weather ''weekly'') = Inl KeyError"
  using weather_properties_missing_key [of "demo_empty_weather ''hourly''" demo_aemet_const "''forecast-hourly''"]
    weather_properties_missing_key [of "demo_weather ''weekly''" demo_aemet_const "''forecast-hourly''"]
  by (simp add: demo_empty_weather_def demo_weather_def AemetWeather_init_def demo_aemet_const_def)

text \<open>The setup loop builds one entity per mode, with the default of its mode.\<close>

lemma build_entities_modes:
  "build_entities c dd uid coord modes = Inr es \<Longrightarrow>
     map forecast_mode es = modes \<and>
     map attr_entity_registry_enabled_default es = map (\<lambda>m. m = FORECAST_MODE_DAILY c) modes"
  by (induction modes arbitrary: es)
    (auto simp: AemetWeather_init_def Let_def split: sum.splits)

text \<open>
  C10. For every forecast mode, the entity constructed for it has
  \<^verbatim>\<open>entity_registry_enabled_default\<close> true if and only if the mode is the daily mode; the
  platform setup builds one entity per mode of \<^verbatim>\<open>FORECAST_MODES\<close>, in order, each with
  that default.
\<close>

theorem enabled_default_iff_daily:
  "attr_entity_registry_enabled_default (AemetWeather_init c nm uid coord mode)
     = (mode = FORECAST_MODE_DAILY c) \<and>
   (weather_async_setup_entry c dd entry = Inr es \<longrightarrow>
      map forecast_mode es = FORECAST_MODES c \<and>
      map attr_entity_registry_enabled_default es
        = map (\<lambda>m. m = FORECAST_MODE_DAILY c) (FORECAST_MODES c))"
  by (auto simp: AemetWeather_init_def weather_async_setup_entry_def
      split: sum.splits dest: build_entities_modes)

theorem enabled_default_iff_daily_witness:
  "attr_entity_registry_enabled_default
     (AemetWeather_init demo_aemet_const ''Home daily'' ''uid daily'' demo_weather_coordinator ''daily'') \<and>
   \<not> attr_entity_registry_enabled_default
     (AemetWeather_init demo_aemet_const ''Home hourly'' ''uid hourly'' demo_weather_coordinator ''hourly'') \<and>
   weather_async_setup_entry demo_aemet_const demo_domain_data (demo_entry ''e1'')
     = Inr [AemetWeather_init demo_aemet_const ''Home daily'' ''uid daily'' demo_weather_coordinator ''daily'',
            AemetWeather_init demo_aemet_const ''Home hourly'' ''uid hourly'' demo_weather_coordinator ''hourly''] \<and>
   map attr_entity_registry_enabled_default
     [AemetWeather_init demo_aemet_const ''Home daily'' ''uid daily'' demo_weather_coordinator ''daily'',
      AemetWeather_init demo_aemet_const ''Home hourly'' ''uid hourly'' demo_weather_coordinator ''hourly'']
     = [True, False]"
  using enabled_default_iff_daily [of demo_aemet_const "''Home daily''" "''uid daily''"
      demo_weather_coordinator "''daily''" demo_domain_data "demo_entry ''e1''"
      "[AemetWeather_init demo_aemet_const ''Home daily'' ''uid daily'' demo_weather_coordinator ''daily'',
        AemetWeather_init demo_aemet_const ''Home hourly'' ''uid hourly'' demo_weather_coordinator ''hourly'']"]
  by (simp add: weather_async_setup_entry_def getitem_def Let_def AemetWeather_init_def
      demo_aemet_const_def demo_domain_data_def demo_entry_def)

section \<open>Vendor exceptions at the adapter boundary\<close>

text \<open>
  C5, as stated, fails: \<^verbatim>\<open>enable_motion_detection\<close> has no handler, so an exception
  of the vendor call leaves the adapter as it was raised.
\<close>

theorem motion_detection_propagates_counterexample:
  "vendor_enable_motion_detection (surveillance_station (demo_camera ''1'' ''e1''))
     (key (demo_camera ''1'' ''e1'')) = Inl SynologyDSMRequestException \<and>
   enable_motion_detection (demo_camera ''1'' ''e1'') = Inl SynologyDSMRequestException"
  by (simp add: enable_motion_detection_def camera_data_def getitem_def demo_camera_def
      demo_coordinator_def demo_station_def)

text \<open>
  C5, amended. Of the exceptions a vendor call raises, client login at setup converts
  exactly TypeError, KeyError, NameError and ValueError to \<^verbatim>\<open>ConfigEntryNotReady\<close>, and
  image capture converts exactly SynologyDSMAPIErrorException,
  SynologyDSMRequestException and ConnectionRefusedError to a \<^verbatim>\<open>None\<close> result; every
  other kind raised in these two operations, and every exception the vendor call raises
  in motion-detection enable or disable, propagates unchanged.
\<close>

theorem vendor_exception_outcomes:
  "(entry_data entry (CONF_USERNAME c) = Some u \<and> entry_data entry (CONF_PASSWORD c) = Some p \<and>
    login \<lparr>username = u, password = p\<rparr> = Inl ex \<longrightarrow>
      fst (async_setup_entry c login hass entry) =
        (if ex \<in> {TypeError, KeyError, NameError, ValueError} then Inl (ConfigEntryNotReady ex)
         else Inl ex)) \<and>
   (available self = Inr True \<and>
    get_camera_image (surveillance_station self) (key self) (snapshot_quality self) = Inl err \<longrightarrow>
      camera_image self w h =
        (if err \<in> {SynologyDSMAPIErrorException, SynologyDSMRequestException, ConnectionRefusedError}
         then Inr None else Inl err)) \<and>
   (camera_data self = Inr cam \<and>
    vendor_enable_motion_detection (surveillance_station self) (key self) = Inl err \<longrightarrow>
      enable_motion_detection self = Inl err) \<and>
   (camera_data self = Inr cam \<and>
    vendor_disable_motion_detection (surveillance_station self) (key self) = Inl err \<longrightarrow>
      disable_motion_detection self = Inl err)"
proof (intro conjI impI)
  assume "entry_data entry (CONF_USERNAME c) = Some u \<and> entry_data entry (CONF_PASSWORD c) = Some p \<and>
    login \<lparr>username = u, password = p\<rparr> = Inl ex"
  then show "fst (async_setup_entry c login hass entry) =
        (if ex \<in> {TypeError, KeyError, NameError, ValueError} then Inl (ConfigEntryNotReady ex)
         else Inl ex)"
    by (simp add: async_setup_entry_def getitem_def login_step_def setup_caught_def)
next
  assume "available self = Inr True \<and>
    get_camera_image (surveillance_station self) (key self) (snapshot_quality self) = Inl err"
  then show "camera_image self w h =
        (if err \<in> {SynologyDSMAPIErrorException, SynologyDSMRequestException, ConnectionRefusedError}
         then Inr None else Inl err)"
    by (auto simp: camera_image_def available_def camera_image_caught_def split: sum.splits)
next
  assume "camera_data self = Inr cam \<and>
    vendor_enable_motion_detection (surveillance_station self) (key self) = Inl err"
  then show "enable_motion_detection self = Inl err"
    by (simp add: enable_motion_detection_def)
next
  assume "camera_data self = Inr cam \<and>
    vendor_disable_motion_detection (surveillance_station self) (key self) = Inl err"
  then show "disable_motion_detection self = Inl err"
    by (simp add: disable_motion_detection_def)
qed

theorem vendor_exception_outcomes_witness:
  "fst (async_setup_entry demo_aladdin_const (\<lambda>acc. Inl TypeError) demo_hass (demo_entry ''e1''))
     = Inl (ConfigEntryNotReady TypeError) \<and>
   fst (async_setup_entry demo_aladdin_const (\<lambda>acc. Inl (OtherException ''ConnectionError''))
          demo_hass (demo_entry ''e1''))
     = Inl (OtherException ''ConnectionError'') \<and>
   available (demo_camera ''2'' ''e1'') = Inr True \<and>
   camera_image (demo_camera ''2'' ''e1'') None None = Inr None \<and>
   available demo_failing_camera = Inr True \<and>
   camera_image demo_failing_camera None None
     = Inl (OtherException ''SynologyDSMLoginFailedException'') \<and>
   camera_data (demo_camera ''1'' ''e1'') = Inr (demo_cam 1 True) \<and>
   enable_motion_detection (demo_camera ''1'' ''e1'') = Inl SynologyDSMRequestException \<and>
   disable_motion_detection (demo_camera ''1'' ''e1'')
     = Inl (OtherException ''SynologyDSMLoginFailedException'')"
  using vendor_exception_outcomes [of "demo_entry ''e1''" demo_aladdin_const "''me''" "''secret''"
      "\<lambda>acc. Inl TypeError" TypeError demo_hass "demo_camera ''2'' ''e1''"
      SynologyDSMAPIErrorException None None "demo_cam 2 True"]
    vendor_exception_outcomes [of "demo_entry ''e1''" demo_aladdin_const "''me''" "''secret''"
      "\<lambda>acc. Inl (OtherException ''ConnectionError'')" "OtherException ''ConnectionError''" demo_hass
      demo_failing_camera "OtherException ''SynologyDSMLoginFailedException''" None None
      "demo_cam 2 True"]
    vendor_exception_outcomes [of "demo_entry ''e1''" demo_aladdin_const "''me''" "''secret''"
      "\<lambda>acc. Inl TypeError" TypeError demo_hass "demo_camera ''1'' ''e1''"
      SynologyDSMRequestException None None "demo_cam 1 True"]
    vendor_exception_outcomes [of "demo_entry ''e1''" demo_aladdin_const "''me''" "''secret''"
      "\<lambda>acc. Inl TypeError" TypeError demo_hass "demo_camera ''1'' ''e1''"
      "OtherException ''SynologyDSMLoginFailedException''" None None "demo_cam 1 True"]
  by (simp add: available_def camera_data_def getitem_def demo_failing_camera_def demo_camera_def
      demo_coordinator_def demo_cam_def demo_station_def demo_entry_def demo_aladdin_const_def)

section \<open>Stream-source signals\<close>

subsection \<open>Signal names\<close>

text \<open>
  The decimal rendering of an integer is injective and has no underscore, and a signal
  name is split at its last underscore: two names with underscore-free camera ids agree
  only when entry id and camera id agree.
\<close>

lemma of_char_digit: "d < 10 \<Longrightarrow> of_char (digit_char d) = 48 + d"
  by (simp add: digit_char_def)

lemma of_char_underscore: "(of_char CHR ''_'' :: nat) = 95" by simp
lemma of_char_minus: "(of_char CHR ''-'' :: nat) = 45" by simp

lemma digit_char_not_sep:
  assumes "d < 10"
  shows "digit_char d \<noteq> CHR ''_''" and "digit_char d \<noteq> CHR ''-''"
proof -
  have d: "(of_char (digit_char d) :: nat) = 48 + d"
    using assms by (rule of_char_digit)
  have "(of_char (digit_char d) :: nat) \<noteq> 95" unfolding d using assms by arith
  then show "digit_char d \<noteq> CHR ''_''" using of_char_underscore by metis
  have "(of_char (digit_char d) :: nat) \<noteq> 45" unfolding d by arith
  then show "digit_char d \<noteq> CHR ''-''" using of_char_minus by metis
qed

lemma digit_char_inject: "a < 10 \<Longrightarrow> b < 10 \<Longrightarrow> digit_char a = digit_char b \<Longrightarrow> a = b"
proof -
  assume a: "a < 10" and b: "b < 10" and eq: "digit_char a = digit_char b"
  from eq have "(of_char (digit_char a) :: nat) = of_char (digit_char b)" by (rule arg_cong)
  then have "48 + a = 48 + b"
    unfolding of_char_digit [OF a] of_char_digit [OF b] .
  then show "a = b" by arith
qed

lemma str_nat_nonempty: "str_nat n \<noteq> []"
  by (subst str_nat.simps) simp

lemma str_nat_chars: "c \<in> set (str_nat n) \<Longrightarrow> \<exists>d<10. c = digit_char d"
proof (induction n rule: str_nat.induct)
  case (1 n)
  show ?case
  proof (cases "n < 10")
    case True
    with "1.prems" show ?thesis by (subst (asm) str_nat.simps) auto
  next
    case False
    from "1.prems" have "c \<in> set (str_nat (n div 10)) \<or> c = digit_char (n mod 10)"
      by (subst (asm) str_nat.simps) (use False in auto)
    then show ?thesis
    proof
      assume "c \<in> set (str_nat (n div 10))"
      with False "1.IH" show ?thesis by blast
    next
      assume "c = digit_char (n mod 10)"
      moreover have "n mod 10 < 10" by simp
      ultimately show ?thesis by blast
    qed
  qed
qed

lemma str_nat_no_sep: "CHR ''_'' \<notin> set (str_nat n)" "CHR ''-'' \<notin> set (str_nat n)"
  using str_nat_chars digit_char_not_sep by metis+

lemma str_nat_inject: "str_nat n = str_nat m \<Longrightarrow> n = m"
proof (induction n arbitrary: m rule: str_nat.induct)
  case (1 n)
  show ?case
  proof (cases "n < 10")
    case True
    then have n: "str_nat n = [digit_char n]" by (subst str_nat.simps) simp
    show ?thesis
    proof (cases "m < 10")
      case True
      then have "str_nat m = [digit_char m]" by (subst str_nat.simps) simp
      with n "1.prems" have "digit_char n = digit_char m" by simp
      with \<open>n < 10\<close> True show ?thesis by (rule digit_char_inject)
    next
      case False
      then have "str_nat m = str_nat (m div 10) @ [digit_char (m mod 10)]"
        by (subst str_nat.simps) simp
      with n "1.prems" have "str_nat (m div 10) = []" by simp
      with str_nat_nonempty show ?thesis by blast
    qed
  next
    case False
    then have n: "str_nat n = str_nat (n div 10) @ [digit_char (n mod 10)]"
      by (subst str_nat.simps) simp
    show ?thesis
    proof (cases "m < 10")
      case True
      then have "str_nat m = [digit_char m]" by (subst str_nat.simps) simp
      with n "1.prems" have "str_nat (n div 10) = []" by simp
      with str_nat_nonempty show ?thesis by blast
    next
      case m: False
      then have "str_nat m = str_nat (m div 10) @ [digit_char (m mod 10)]"
        by (subst str_nat.simps) simp
      with n "1.prems" have eq: "str_nat (n div 10) = str_nat (m div 10)"
        and dg: "digit_char (n mod 10) = digit_char (m mod 10)" by simp_all
      from eq False "1.IH" have "n div 10 = m div 10" by blast
      moreover from dg have "n mod 10 = m mod 10" by (rule digit_char_inject [rotated 2]) simp_all
      ultimately show ?thesis by (metis div_mult_mod_eq)
    qed
  qed
qed

lemma str_int_no_underscore: "CHR ''_'' \<notin> set (str_int i)"
  by (simp add: str_int_def str_nat_no_sep)

lemma inj_str_int: "inj str_int"
proof (rule injI)
  fix i j :: int
  assume eq: "str_int i = str_int j"
  have hd_neg: "hd (str_int k) = CHR ''-'' \<longleftrightarrow> k < 0" for k
  proof (cases "k < 0")
    case True
    then show ?thesis by (simp add: str_int_def)
  next
    case False
    have "hd (str_nat (nat k)) \<in> set (str_nat (nat k))"
      using str_nat_nonempty by simp
    with str_nat_no_sep(2) have "hd (str_nat (nat k)) \<noteq> CHR ''-''" by metis
    with False show ?thesis by (simp add: str_int_def)
  qed
  from eq hd_neg [of i] hd_neg [of j] have sgn: "i < 0 \<longleftrightarrow> j < 0" by simp
  show "i = j"
  proof (cases "i < 0")
    case True
    with sgn eq have "str_nat (nat (- i)) = str_nat (nat (- j))" by (simp add: str_int_def)
    then have "nat (- i) = nat (- j)" by (rule str_nat_inject)
    with True sgn show ?thesis by simp
  next
    case False
    with sgn eq have "str_nat (nat i) = str_nat (nat j)" by (simp add: str_int_def)
    then have "nat i = nat j" by (rule str_nat_inject)
    with False sgn show ?thesis by simp
  qed
qed

lemma split_at_last_separator:
  "c \<notin> set b \<Longrightarrow> c \<notin> set b' \<Longrightarrow> a @ c # b = a' @ c # b' \<Longrightarrow> a = a' \<and> b = b'"
proof (induction a arbitrary: a')
  case Nil
  then show ?case by (cases a') auto
next
  case (Cons y ys)
  then show ?case by (cases a') auto
qed

lemma signal_name_inject:
  assumes "CHR ''_'' \<notin> set x" "CHR ''_'' \<notin> set x'"
    and "signal_name sig e x = signal_name sig e' x'"
  shows "e = e' \<and> x = x'"
proof -
  from assms(3) have "e @ CHR ''_'' # x = e' @ CHR ''_'' # x'"
    by (simp add: signal_name_def)
  with assms(1,2) show ?thesis
    by (rule split_at_last_separator)
qed

subsection \<open>Delivery\<close>

text \<open>
  A callback changes only the stream of its own entity; delivery leaves an entity with
  no connection under the signal as it was, and updates the stream of an entity connected
  under it. Every connection of a reachable state is the one its entity's
  \<^verbatim>\<open>_listen_source_updates\<close> makes.
\<close>

lemma listen_signal_Inr:
  "listen_signal sig fmt e = Inr s \<longleftrightarrow>
     (\<exists>eid x. entity_ids e = Some (eid, x) \<and> s = signal_name sig eid (fmt x))"
  by (auto simp: listen_signal_def entity_ids_def split: option.splits sum.splits)

lemma camera_data_stream_update [simp]: "camera_data (e\<lparr>stream := st\<rparr>) = camera_data e"
  by (simp add: camera_data_def cong: sum.case_cong)

lemma listen_signal_stream_update [simp]:
  "listen_signal sig fmt (e\<lparr>stream := st\<rparr>) = listen_signal sig fmt e"
  by (simp add: listen_signal_def cong: option.case_cong)

lemma handle_signal_only_stream:
  "handle_signal e url = Inr e' \<Longrightarrow> \<exists>st. e' = e\<lparr>stream := st\<rparr>"
  by (cases "stream e") (auto simp: handle_signal_def split: sum.splits intro: exI [of _ None])

lemma handle_signal_updates:
  assumes "camera_data e = Inr cam"
  shows "\<exists>e'. handle_signal e url = Inr e' \<and> camera_data e' = Inr cam \<and>
           stream e' = map_option (\<lambda>s. update_source s url) (stream e)"
  using assms by (cases "stream e") (simp_all add: handle_signal_def)

lemma deliver_length [simp]: "length (deliver signal url conns es) = length es"
  by (induction conns arbitrary: es) (auto split: sum.splits)

lemma deliver_frame:
  "(signal, j) \<notin> set conns \<Longrightarrow> deliver signal url conns es ! j = es ! j"
proof (induction conns arbitrary: es)
  case Nil
  show ?case by simp
next
  case (Cons conn conns)
  obtain s i where conn: "conn = (s, i)" by (cases conn)
  from Cons.prems conn have rest: "(signal, j) \<notin> set conns" and here: "s = signal \<longrightarrow> i \<noteq> j"
    by auto
  let ?es' = "if s = signal \<and> i < length es then
      (case handle_signal (es ! i) url of Inl _ \<Rightarrow> es | Inr e' \<Rightarrow> es[i := e']) else es"
  have "?es' ! j = es ! j"
    using here by (auto split: sum.splits)
  moreover have "deliver signal url (conn # conns) es = deliver signal url conns ?es'"
    by (simp add: conn)
  ultimately show ?case
    using Cons.IH [OF rest, of ?es'] by simp
qed

lemma deliver_only_stream:
  "j < length es \<Longrightarrow> \<exists>st. deliver signal url conns es ! j = (es ! j)\<lparr>stream := st\<rparr>"
proof (induction conns arbitrary: es)
  case Nil
  show ?case by (auto intro: exI [of _ "stream (es ! j)"])
next
  case (Cons conn conns)
  obtain s i where conn: "conn = (s, i)" by (cases conn)
  let ?es' = "if s = signal \<and> i < length es then
      (case handle_signal (es ! i) url of Inl _ \<Rightarrow> es | Inr e' \<Rightarrow> es[i := e']) else es"
  have len: "length ?es' = length es"
    by (auto split: sum.splits)
  have "\<exists>st. ?es' ! j = (es ! j)\<lparr>stream := st\<rparr>"
  proof (cases "s = signal \<and> i < length es \<and> i = j")
    case True
    show ?thesis
    proof (cases "handle_signal (es ! j) url")
      case (Inl ex)
      with True show ?thesis by (auto intro: exI [of _ "stream (es ! j)"])
    next
      case (Inr e')
      with handle_signal_only_stream obtain st where "e' = (es ! j)\<lparr>stream := st\<rparr>" by blast
      with True Inr Cons.prems show ?thesis by auto
    qed
  next
    case False
    then have "?es' ! j = es ! j" by (auto split: sum.splits)
    then show ?thesis by (auto intro: exI [of _ "stream (es ! j)"])
  qed
  then obtain st where st: "?es' ! j = (es ! j)\<lparr>stream := st\<rparr>" ..
  from Cons.prems len have "j < length ?es'" by simp
  from Cons.IH [OF this] obtain st'
    where "deliver signal url conns ?es' ! j = (?es' ! j)\<lparr>stream := st'\<rparr>" ..
  with st have "deliver signal url conns ?es' ! j = (es ! j)\<lparr>stream := st'\<rparr>" by simp
  moreover have "deliver signal url (conn # conns) es = deliver signal url conns ?es'"
    by (simp add: conn)
  ultimately show ?case by auto
qed

lemma update_source_twice [simp]: "update_source (update_source s url) url = update_source s url"
  by (simp add: update_source_def)

lemma deliver_updates:
  assumes "j < length es" and "camera_data (es ! j) = Inr cam"
  shows "stream (deliver signal url conns es ! j) =
           (if (signal, j) \<in> set conns
            then map_option (\<lambda>s. update_source s url) (stream (es ! j))
            else stream (es ! j))"
  using assms
proof (induction conns arbitrary: es)
  case Nil
  show ?case by simp
next
  case (Cons conn conns)
  obtain s i where conn: "conn = (s, i)" by (cases conn)
  let ?upd = "map_option (\<lambda>s. update_source s url)"
  let ?es' = "if s = signal \<and> i < length es then
      (case handle_signal (es ! i) url of Inl _ \<Rightarrow> es | Inr e' \<Rightarrow> es[i := e']) else es"
  have len: "j < length ?es'"
    using Cons.prems(1) by (auto split: sum.splits)
  have step: "deliver signal url (conn # conns) es = deliver signal url conns ?es'"
    by (simp add: conn)
  show ?case
  proof (cases "s = signal \<and> i = j")
    case True
    from handle_signal_updates [OF Cons.prems(2), of url] obtain e'
      where e': "handle_signal (es ! j) url = Inr e'" "camera_data e' = Inr cam"
        "stream e' = ?upd (stream (es ! j))" by blast
    from True e'(1) Cons.prems(1) have es': "?es' ! j = e'" by simp
    have idem: "?upd (?upd (stream (es ! j))) = ?upd (stream (es ! j))"
      by (cases "stream (es ! j)") simp_all
    from Cons.IH [OF len] es' e'(2)
    have "stream (deliver signal url conns ?es' ! j) =
           (if (signal, j) \<in> set conns then ?upd (stream e') else stream e')"
      by simp
    with e'(3) idem have "stream (deliver signal url conns ?es' ! j) = ?upd (stream (es ! j))"
      by simp
    with step True conn show ?thesis by simp
  next
    case False
    then have same: "?es' ! j = es ! j" by (auto split: sum.splits)
    with Cons.prems(2) have "camera_data (?es' ! j) = Inr cam" by simp
    from Cons.IH [OF len this] same
    have "stream (deliver signal url conns ?es' ! j) =
           (if (signal, j) \<in> set conns then ?upd (stream (es ! j)) else stream (es ! j))"
      by simp
    moreover from False conn have "(signal, j) \<in> set (conn # conns) \<longleftrightarrow> (signal, j) \<in> set conns"
      by auto
    ultimately show ?thesis using step by simp
  qed
qed

lemma reachable_connections:
  "reachable sig fmt hass \<Longrightarrow> (s, i) \<in> set (dispatcher hass) \<Longrightarrow>
     i < length (entities hass) \<and> listen_signal sig fmt (entities hass ! i) = Inr s"
proof (induction arbitrary: s i rule: reachable.induct)
  case (initial hass)
  then show ?case by simp
next
  case (added hass k hass')
  from added.hyps(3) obtain s0 where s0: "listen_signal sig fmt (entities hass ! k) = Inr s0"
    and hass': "hass' = hass\<lparr>dispatcher := dispatcher hass @ [(s0, k)]\<rparr>"
    by (auto simp: async_added_to_hass_def listen_source_updates_def split: sum.splits)
  from added.prems hass' have "(s, i) \<in> set (dispatcher hass) \<or> (s, i) = (s0, k)" by auto
  then show ?case
  proof
    assume "(s, i) \<in> set (dispatcher hass)"
    with added.IH hass' show ?thesis by simp
  next
    assume "(s, i) = (s0, k)"
    with s0 added.hyps(2) hass' show ?thesis by simp
  qed
next
  case (sent hass signal url)
  from sent.prems have conn: "(s, i) \<in> set (dispatcher hass)"
    by (simp add: dispatcher_send_def)
  with sent.IH have i: "i < length (entities hass)"
    and l: "listen_signal sig fmt (entities hass ! i) = Inr s" by simp_all
  from deliver_only_stream [OF i, of signal url "dispatcher hass"] obtain st
    where "deliver signal url (dispatcher hass) (entities hass) ! i = (entities hass ! i)\<lparr>stream := st\<rparr>" ..
  with i l show ?case by (simp add: dispatcher_send_def)
qed

text \<open>
  C7. When the stream-source signal keyed by config-entry id \<open>eid\<close> and camera id \<open>X\<close> is
  dispatched, every camera entity that is not keyed by \<open>(eid, X)\<close> is left unchanged,
  its stream reference included, and the entity keyed by \<open>(eid, X)\<close>, once added, has its
  stream (when it has one) updated with the new URL. The state is any the platform
  reaches by adding entities and sending signals; the vendor's camera ids are formatted
  injectively and without underscore, as integers are.
\<close>

theorem stream_source_signal_reaches_only_its_camera:
  assumes reach: "reachable sig fmt hass"
    and inj: "inj fmt"
    and sep: "\<forall>x. CHR ''_'' \<notin> set (fmt x)"
    and j: "j < length (entities hass)"
  shows "(entity_ids (entities hass ! j) \<noteq> Some (eid, X) \<longrightarrow>
           entities (dispatcher_send hass (signal_name sig eid (fmt X)) url) ! j
             = entities hass ! j) \<and>
         (entity_ids (entities hass ! j) = Some (eid, X) \<and> j \<in> snd ` set (dispatcher hass) \<longrightarrow>
           stream (entities (dispatcher_send hass (signal_name sig eid (fmt X)) url) ! j)
             = map_option (\<lambda>s. update_source s url) (stream (entities hass ! j)))"
proof (intro conjI impI)
  assume other: "entity_ids (entities hass ! j) \<noteq> Some (eid, X)"
  have "(signal_name sig eid (fmt X), j) \<notin> set (dispatcher hass)"
  proof
    assume "(signal_name sig eid (fmt X), j) \<in> set (dispatcher hass)"
    with reach have "listen_signal sig fmt (entities hass ! j) = Inr (signal_name sig eid (fmt X))"
      by (simp add: reachable_connections)
    then obtain eid' x' where ids: "entity_ids (entities hass ! j) = Some (eid', x')"
      and eq: "signal_name sig eid (fmt X) = signal_name sig eid' (fmt x')"
      by (auto simp: listen_signal_Inr)
    from sep have "CHR ''_'' \<notin> set (fmt X)" "CHR ''_'' \<notin> set (fmt x')" by simp_all
    from signal_name_inject [OF this eq] have "eid = eid'" "fmt X = fmt x'" by simp_all
    with inj have "eid' = eid" "x' = X" by (auto dest: injD)
    with ids other show False by simp
  qed
  then show "entities (dispatcher_send hass (signal_name sig eid (fmt X)) url) ! j = entities hass ! j"
    by (simp add: dispatcher_send_def deliver_frame)
next
  assume "entity_ids (entities hass ! j) = Some (eid, X) \<and> j \<in> snd ` set (dispatcher hass)"
  then have ids: "entity_ids (entities hass ! j) = Some (eid, X)"
    and "j \<in> snd ` set (dispatcher hass)" by simp_all
  then obtain s where conn: "(s, j) \<in> set (dispatcher hass)" by auto
  with reach have "listen_signal sig fmt (entities hass ! j) = Inr s"
    by (simp add: reachable_connections)
  with ids have s: "s = signal_name sig eid (fmt X)"
    by (simp add: listen_signal_Inr)
  from ids obtain cam where cam: "camera_data (entities hass ! j) = Inr cam"
    by (auto simp: entity_ids_def split: option.splits sum.splits)
  from deliver_updates [OF j cam, of "signal_name sig eid (fmt X)" url "dispatcher hass"] conn s
  show "stream (entities (dispatcher_send hass (signal_name sig eid (fmt X)) url) ! j)
          = map_option (\<lambda>s. update_source s url) (stream (entities hass ! j))"
    by (simp add: dispatcher_send_def)
qed

lemmas demo_camera_simps =
  camera_data_def getitem_def demo_camera_def demo_coordinator_def demo_cam_def demo_entry_def

lemma str_int_small: "str_int 1 = ''1''" "str_int 2 = ''2''"
  by (simp_all add: str_int_def str_nat.simps digit_char_def char_of_eq_iff)

lemma demo_platform_reachable: "reachable ''sig'' str_int demo_platform"
proof -
  let ?add = "async_added_to_hass ''sig'' str_int"
  let ?h1 = "demo_platform0\<lparr>dispatcher := [(''sig_e1_1'', 0)]\<rparr>"
  let ?h2 = "demo_platform0\<lparr>dispatcher := [(''sig_e1_1'', 0), (''sig_e1_2'', 1)]\<rparr>"
  have r0: "reachable ''sig'' str_int demo_platform0"
    by (rule reachable.initial) (simp add: demo_platform0_def)
  have a0: "?add demo_platform0 0 = Inr ?h1"
    by (simp add: async_added_to_hass_def listen_source_updates_def listen_signal_def
        signal_name_def str_int_small demo_platform0_def demo_camera_simps)
  have r1: "reachable ''sig'' str_int ?h1"
    by (rule reachable.added [OF r0 _ a0]) (simp add: demo_platform0_def)
  have a1: "?add ?h1 1 = Inr ?h2"
    by (simp add: async_added_to_hass_def listen_source_updates_def listen_signal_def
        signal_name_def str_int_small demo_platform0_def demo_camera_simps)
  have r2: "reachable ''sig'' str_int ?h2"
    by (rule reachable.added [OF r1 _ a1]) (simp add: demo_platform0_def)
  have a2: "?add ?h2 2 = Inr demo_platform"
    by (simp add: async_added_to_hass_def listen_source_updates_def listen_signal_def
        signal_name_def str_int_small demo_platform0_def demo_platform_def demo_camera_simps)
  show ?thesis
    by (rule reachable.added [OF r2 _ a2]) (simp add: demo_platform0_def)
qed

lemma demo_entity_ids:
  "entity_ids (entities demo_platform ! 0) = Some (''e1'', 1)"
  "entity_ids (entities demo_platform ! 1) = Some (''e1'', 2)"
  "entity_ids (entities demo_platform ! 2) = Some (''e2'', 1)"
  by (simp_all add: entity_ids_def demo_platform_def demo_platform0_def demo_camera_simps)

theorem stream_source_signal_reaches_only_its_camera_witness:
  "reachable ''sig'' str_int demo_platform \<and> inj str_int \<and>
   (\<forall>x. CHR ''_'' \<notin> set (str_int x)) \<and>
   entity_ids (entities demo_platform ! 0) = Some (''e1'', 1) \<and>
   0 \<in> snd ` set (dispatcher demo_platform) \<and>
   stream (entities (dispatcher_send demo_platform (signal_name ''sig'' ''e1'' (str_int 1))
             ''rtsp://nas/new'') ! 0)
     = Some \<lparr>source = ''rtsp://nas/new''\<rparr> \<and>
   entity_ids (entities demo_platform ! 1) \<noteq> Some (''e1'', 1) \<and>
   entities (dispatcher_send demo_platform (signal_name ''sig'' ''e1'' (str_int 1))
     ''rtsp://nas/new'') ! 1 = demo_camera ''2'' ''e1'' \<and>
   entity_ids (entities demo_platform ! 2) \<noteq> Some (''e1'', 1) \<and>
   entities (dispatcher_send demo_platform (signal_name ''sig'' ''e1'' (str_int 1))
     ''rtsp://nas/new'') ! 2 = demo_camera ''1'' ''e2''"
proof -
  note inst = stream_source_signal_reaches_only_its_camera
    [OF demo_platform_reachable inj_str_int, of _ "''e1''" 1 "''rtsp://nas/new''"]
  have sep: "\<forall>x. CHR ''_'' \<notin> set (str_int x)"
    by (simp add: str_int_no_underscore)
  have len: "length (entities demo_platform) = 3"
    by (simp add: demo_platform_def demo_platform0_def)
  have conn: "0 \<in> snd ` set (dispatcher demo_platform)"
    by (simp add: demo_platform_def)
  have old: "stream (entities demo_platform ! 0) = Some \<lparr>source = ''rtsp://nas/old''\<rparr>"
    "entities demo_platform ! 1 = demo_camera ''2'' ''e1''"
    "entities demo_platform ! 2 = demo_camera ''1'' ''e2''"
    by (simp_all add: demo_platform_def demo_platform0_def demo_camera_def)
  from inst [OF sep, of 0] inst [OF sep, of 1] inst [OF sep, of 2] len conn old demo_entity_ids sep
  show ?thesis
    by (simp add: demo_platform_reachable inj_str_int update_source_def)
qed

end
